theory Spec2Isabelle
  imports Main "HOL-Library.AList"
begin

section \<open>Reflected Go values\<close>

text \<open>
  \<^verbatim>\<open>serializeWithSecretFilter\<close> walks its argument with package \<^verbatim>\<open>reflect\<close>.
  The values it can meet are modelled by the datatype \<open>Value\<close>, one constructor per
  \<^verbatim>\<open>reflect.Kind\<close> that the configuration types of \<^verbatim>\<open>daemonconfig.go\<close> use, plus
  pointers:
  \<^item> \<open>VBool\<close>, \<open>VInt\<close> (every integer kind), \<open>VString\<close>;
  \<^item> \<open>VSlice\<close> and \<open>VMap\<close>, where \<open>None\<close> is the nil slice or nil map and \<open>Some\<close>
    a non-nil one (Go tells an empty non-nil slice from nil);
  \<^item> \<open>VPtr\<close>, where \<open>None\<close> is the nil pointer;
  \<^item> \<open>VStruct\<close>, the fields in declaration order, each with its
    \<^verbatim>\<open>reflect.StructField\<close> descriptor.
  Interface-typed fields, floats, arrays, channels and functions do not occur in
  these types and are left out.
\<close>

type_synonym StructTag = "(string \<times> string) list"

record StructField =
  Name :: string
  PkgPath :: string
  Tag :: StructTag

datatype Value =
    VBool bool
  | VInt int
  | VString string
  | VSlice "Value list option"
  | VMap "(string \<times> Value) list option"
  | VPtr "Value option"
  | VStruct "(StructField \<times> Value) list"

text \<open>\<^verbatim>\<open>StructField.IsExported\<close>: the package path is empty for an exported field.\<close>

definition IsExported :: "StructField \<Rightarrow> bool" where
  "IsExported fieldType \<longleftrightarrow> PkgPath fieldType = []"

text \<open>
  \<^verbatim>\<open>StructTag.Get\<close>: a tag in the conventional \<^verbatim>\<open>key:"value"\<close> format is the list
  of its pairs; \<open>Get\<close> returns the value of the first pair with that key and the
  empty string when there is none.
\<close>

definition Tag_Get :: "StructTag \<Rightarrow> string \<Rightarrow> string" where
  "Tag_Get tag key = (case map_of tag key of None \<Rightarrow> [] | Some v \<Rightarrow> v)"

text \<open>
  \<^verbatim>\<open>strings.Split(s, sep)\<close> for a one-character separator. The result is never
  empty: splitting the empty string gives one empty piece.
\<close>

fun Split :: "string \<Rightarrow> char \<Rightarrow> string list" where
  "Split [] sep = [[]]"
| "Split (c # cs) sep =
     (if c = sep then [] # Split cs sep
      else (case Split cs sep of [] \<Rightarrow> [[c]] | w # ws \<Rightarrow> (c # w) # ws))"

text \<open>\<^verbatim>\<open>reflect.Zero(field.Type())\<close>: the zero value of the type of a value.\<close>

fun Zero :: "Value \<Rightarrow> Value"
and Zero_fields :: "(StructField \<times> Value) list \<Rightarrow> (StructField \<times> Value) list" where
  "Zero (VBool b) = VBool False"
| "Zero (VInt i) = VInt 0"
| "Zero (VString s) = VString []"
| "Zero (VSlice xs) = VSlice None"
| "Zero (VMap m) = VMap None"
| "Zero (VPtr p) = VPtr None"
| "Zero (VStruct fs) = VStruct (Zero_fields fs)"
| "Zero_fields [] = []"
| "Zero_fields ((f, x) # fs) = (f, Zero x) # Zero_fields fs"

text \<open>
  \<^verbatim>\<open>reflect.DeepEqual\<close>, kind by kind: scalars by \<open>=\<close>; slices and maps are equal
  when both are nil, or both are non-nil of the same length with deeply equal
  elements (a map is looked up by key); pointers when both are nil or the pointees
  are deeply equal; structs of one type field by field. Values of different kinds
  are never equal.
\<close>

fun DeepEqual :: "Value \<Rightarrow> Value \<Rightarrow> bool"
and DeepEqual_elems :: "Value list \<Rightarrow> Value list \<Rightarrow> bool"
and DeepEqual_entries :: "(string \<times> Value) list \<Rightarrow> (string \<times> Value) list \<Rightarrow> bool"
and DeepEqual_fields :: "(StructField \<times> Value) list \<Rightarrow> (StructField \<times> Value) list \<Rightarrow> bool" where
  "DeepEqual (VBool a) v2 = (case v2 of VBool b \<Rightarrow> a = b | _ \<Rightarrow> False)"
| "DeepEqual (VInt a) v2 = (case v2 of VInt b \<Rightarrow> a = b | _ \<Rightarrow> False)"
| "DeepEqual (VString a) v2 = (case v2 of VString b \<Rightarrow> a = b | _ \<Rightarrow> False)"
| "DeepEqual (VSlice s1) v2 =
     (case v2 of
        VSlice s2 \<Rightarrow>
          (case s1 of
             None \<Rightarrow> s2 = None
           | Some xs \<Rightarrow>
               (case s2 of None \<Rightarrow> False
                | Some ys \<Rightarrow> length xs = length ys \<and> DeepEqual_elems xs ys))
      | _ \<Rightarrow> False)"
| "DeepEqual (VMap m1) v2 =
     (case v2 of
        VMap m2 \<Rightarrow>
          (case m1 of
             None \<Rightarrow> m2 = None
           | Some es \<Rightarrow>
               (case m2 of None \<Rightarrow> False
                | Some fs \<Rightarrow> length es = length fs \<and> DeepEqual_entries es fs))
      | _ \<Rightarrow> False)"
| "DeepEqual (VPtr p1) v2 =
     (case v2 of
        VPtr p2 \<Rightarrow>
          (case p1 of
             None \<Rightarrow> p2 = None
           | Some a \<Rightarrow> (case p2 of None \<Rightarrow> False | Some b \<Rightarrow> DeepEqual a b))
      | _ \<Rightarrow> False)"
| "DeepEqual (VStruct fs) v2 =
     (case v2 of
        VStruct gs \<Rightarrow> map fst fs = map fst gs \<and> DeepEqual_fields fs gs
      | _ \<Rightarrow> False)"
| "DeepEqual_elems [] ys = True"
| "DeepEqual_elems (x # xs) ys =
     (case ys of [] \<Rightarrow> False | y # ys' \<Rightarrow> DeepEqual x y \<and> DeepEqual_elems xs ys')"
| "DeepEqual_entries [] m2 = True"
| "DeepEqual_entries ((k, v) # m1) m2 =
     (case map_of m2 k of None \<Rightarrow> False | Some w \<Rightarrow> DeepEqual v w \<and> DeepEqual_entries m1 m2)"
| "DeepEqual_fields [] gs = True"
| "DeepEqual_fields ((f, x) # fs) gs =
     (case gs of [] \<Rightarrow> False | (g, y) # gs' \<Rightarrow> DeepEqual x y \<and> DeepEqual_fields fs gs')"


section \<open>The redactor: \<^verbatim>\<open>serializeWithSecretFilter\<close>\<close>

text \<open>
  The result is a Go \<^verbatim>\<open>map[string]interface{}\<close>. An entry holds either the map the
  recursive call returned (\<open>Nested\<close>) or the field's own value (\<open>Literal\<close>). The map is
  kept as an association list with at most one pair per key; \<^verbatim>\<open>result[k] = v\<close> is
  \<^const>\<open>AList.update\<close>, and what Go can observe of it is \<^const>\<open>map_of\<close> and the key set.
\<close>

datatype Rendered = Literal Value | Nested "(string \<times> Rendered) list"

type_synonym result_map = "(string \<times> Rendered) list"

text \<open>The run-time panics of package \<^verbatim>\<open>reflect\<close> that the function can raise.\<close>

datatype panic =
    NumField_on_non_struct
  | Interface_on_unexported_field
  | Interface_on_zero_Value

text \<open>The per-field locals of the loop body (lines 197 to 206 of the source).\<close>

definition secretTag :: "StructField \<Rightarrow> string" where
  "secretTag fieldType = Tag_Get (Tag fieldType) ''secret''"

definition jsonTags :: "StructField \<Rightarrow> string list" where
  "jsonTags fieldType = Split (Tag_Get (Tag fieldType) ''json'') CHR '',''"

definition omitemptyTag :: "StructField \<Rightarrow> bool" where
  "omitemptyTag fieldType \<longleftrightarrow> ''omitempty'' \<in> set (jsonTags fieldType)"

text \<open>\<^verbatim>\<open>jsonTags[0]\<close>, the key every branch of the final switch stores under.\<close>

definition jsonKey :: "StructField \<Rightarrow> string" where
  "jsonKey fieldType = (case jsonTags fieldType of [] \<Rightarrow> [] | k # _ \<Rightarrow> k)"

text \<open>
  The function itself. A pointer argument is dereferenced once; \<^verbatim>\<open>NumField\<close> panics
  on anything that is not a struct then (a nil pointer, a pointer to a pointer, a
  scalar). \<open>fields_loop\<close> is the \<^verbatim>\<open>for\<close> loop over the fields with the result map built
  so far. \<^verbatim>\<open>field.Interface()\<close> panics on an unexported field; the loop reaches it in
  the \<^verbatim>\<open>omitempty\<close> test (when the tag is present) and in every branch of the switch.
\<close>

fun serializeWithSecretFilter :: "Value \<Rightarrow> panic + result_map"
and fields_loop :: "(StructField \<times> Value) list \<Rightarrow> result_map \<Rightarrow> panic + result_map" where
  "serializeWithSecretFilter (VStruct fs) = fields_loop fs []"
| "serializeWithSecretFilter (VPtr p) =
     (case p of
        Some (VStruct fs) \<Rightarrow> fields_loop fs []
      | _ \<Rightarrow> Inl NumField_on_non_struct)"
| "serializeWithSecretFilter (VBool b) = Inl NumField_on_non_struct"
| "serializeWithSecretFilter (VInt i) = Inl NumField_on_non_struct"
| "serializeWithSecretFilter (VString s) = Inl NumField_on_non_struct"
| "serializeWithSecretFilter (VSlice xs) = Inl NumField_on_non_struct"
| "serializeWithSecretFilter (VMap m) = Inl NumField_on_non_struct"
| "fields_loop [] result = Inr result"
| "fields_loop ((fieldType, field) # rest) result =
     (if secretTag fieldType = ''true'' then fields_loop rest result
      else if field = VPtr None then fields_loop rest result
      else if omitemptyTag fieldType \<and> \<not> IsExported fieldType
        then Inl Interface_on_unexported_field
      else if omitemptyTag fieldType \<and> DeepEqual (Zero field) field
        then fields_loop rest result
      else if \<not> IsExported fieldType then Inl Interface_on_unexported_field
      else
        (case field of
           VStruct fs \<Rightarrow>
             (case serializeWithSecretFilter field of
                Inl e \<Rightarrow> Inl e
              | Inr sub \<Rightarrow>
                  fields_loop rest (AList.update (jsonKey fieldType) (Nested sub) result))
         | VPtr p \<Rightarrow>
             (case p of
                None \<Rightarrow> Inl Interface_on_zero_Value
              | Some elem \<Rightarrow>
                  (case serializeWithSecretFilter elem of
                     Inl e \<Rightarrow> Inl e
                   | Inr sub \<Rightarrow>
                       fields_loop rest (AList.update (jsonKey fieldType) (Nested sub) result)))
         | _ \<Rightarrow> fields_loop rest (AList.update (jsonKey fieldType) (Literal field) result)))"


subsection \<open>Notions used to state the properties\<close>

text \<open>
  The fields the loop visits for an argument; \<open>kept\<close>: the field passes the three
  \<^verbatim>\<open>continue\<close> tests; \<open>rendering\<close>: what the final switch stores for a field value.
\<close>

fun fields_of :: "Value \<Rightarrow> (StructField \<times> Value) list" where
  "fields_of (VStruct fs) = fs"
| "fields_of (VPtr (Some (VStruct fs))) = fs"
| "fields_of _ = []"

definition kept :: "StructField \<Rightarrow> Value \<Rightarrow> bool" where
  "kept fieldType field \<longleftrightarrow>
     secretTag fieldType \<noteq> ''true'' \<and> field \<noteq> VPtr None \<and>
     \<not> (omitemptyTag fieldType \<and> DeepEqual (Zero field) field)"

definition rendering :: "Value \<Rightarrow> panic + Rendered" where
  "rendering field =
     (case field of
        VStruct fs \<Rightarrow> map_sum id Nested (serializeWithSecretFilter field)
      | VPtr p \<Rightarrow>
          (case p of
             None \<Rightarrow> Inl Interface_on_zero_Value
           | Some elem \<Rightarrow> map_sum id Nested (serializeWithSecretFilter elem))
      | _ \<Rightarrow> Inr (Literal field))"

text \<open>
  The key paths of a result: \<open>[k]\<close> for an entry under \<open>k\<close>, \<open>k # p\<close> for an entry at
  path \<open>p\<close> of the nested map under \<open>k\<close>.
\<close>

fun key_paths :: "Rendered \<Rightarrow> string list set"
and key_paths_map :: "result_map \<Rightarrow> string list set" where
  "key_paths (Literal v) = {}"
| "key_paths (Nested m) = key_paths_map m"
| "key_paths_map [] = {}"
| "key_paths_map ((k, r) # m) = insert [k] ((#) k ` key_paths r) \<union> key_paths_map m"

text \<open>
  The key paths of a value that run through fields not tagged secret only, along
  struct fields and pointers (the positions the redactor descends into).
\<close>

fun public_paths :: "Value \<Rightarrow> string list set"
and public_paths_fields :: "(StructField \<times> Value) list \<Rightarrow> string list set" where
  "public_paths (VStruct fs) = public_paths_fields fs"
| "public_paths (VPtr p) = (case p of None \<Rightarrow> {} | Some elem \<Rightarrow> public_paths elem)"
| "public_paths (VBool b) = {}"
| "public_paths (VInt i) = {}"
| "public_paths (VString s) = {}"
| "public_paths (VSlice xs) = {}"
| "public_paths (VMap m) = {}"
| "public_paths_fields [] = {}"
| "public_paths_fields ((f, x) # fs) =
     (if secretTag f = ''true'' then {}
      else insert [jsonKey f] ((#) (jsonKey f) ` public_paths x))
     \<union> public_paths_fields fs"

text \<open>No entry of a result, at any depth, is the literal of a nil pointer.\<close>

fun null_free :: "Rendered \<Rightarrow> bool"
and null_free_map :: "result_map \<Rightarrow> bool" where
  "null_free (Literal v) = (v \<noteq> VPtr None)"
| "null_free (Nested m) = null_free_map m"
| "null_free_map [] = True"
| "null_free_map ((k, r) # m) = (null_free r \<and> null_free_map m)"


section \<open>The configuration types of the source\<close>

text \<open>
  \<^verbatim>\<open>MirrorConfig\<close>, \<^verbatim>\<open>BackendConfig\<close> (with its anonymous \<^verbatim>\<open>Proxy\<close> struct) and
  \<^verbatim>\<open>DeviceConfig\<close> as records, and the reflected \<open>Value\<close> of each, with the field
  names and struct tags of the source in declaration order. All fields are
  exported. Go's \<^verbatim>\<open>int\<close> and \<^verbatim>\<open>uint8\<close> are \<open>int\<close> and \<open>nat\<close> here: nothing below computes
  with them, only their being zero matters.
\<close>

definition exported_field :: "string \<Rightarrow> StructTag \<Rightarrow> StructField" where
  "exported_field n t = \<lparr>Name = n, PkgPath = [], Tag = t\<rparr>"

record MirrorConfig =
  Mirror_Host :: string
  Mirror_Headers :: "(string \<times> string) list option"
  Mirror_HealthCheckInterval :: int
  Mirror_FailureLimit :: nat
  Mirror_PingURL :: string

definition MirrorConfig_Value :: "MirrorConfig \<Rightarrow> Value" where
  "MirrorConfig_Value m = VStruct
     [(exported_field ''Host'' [(''json'', ''host,omitempty'')], VString (Mirror_Host m)),
      (exported_field ''Headers'' [(''json'', ''headers,omitempty'')],
         VMap (map_option (map (\<lambda>(k, v). (k, VString v))) (Mirror_Headers m))),
      (exported_field ''HealthCheckInterval'' [(''json'', ''health_check_interval,omitempty'')],
         VInt (Mirror_HealthCheckInterval m)),
      (exported_field ''FailureLimit'' [(''json'', ''failure_limit,omitempty'')],
         VInt (int (Mirror_FailureLimit m))),
      (exported_field ''PingURL'' [(''json'', ''ping_url,omitempty'')], VString (Mirror_PingURL m))]"

record ProxyConfig =
  Proxy_URL :: string
  Proxy_Fallback :: bool
  Proxy_PingURL :: string
  Proxy_CheckInterval :: int
  Proxy_UseHTTP :: bool

definition ProxyConfig_Value :: "ProxyConfig \<Rightarrow> Value" where
  "ProxyConfig_Value p = VStruct
     [(exported_field ''URL'' [(''json'', ''url,omitempty'')], VString (Proxy_URL p)),
      (exported_field ''Fallback'' [(''json'', ''fallback'')], VBool (Proxy_Fallback p)),
      (exported_field ''PingURL'' [(''json'', ''ping_url,omitempty'')], VString (Proxy_PingURL p)),
      (exported_field ''CheckInterval'' [(''json'', ''check_interval,omitempty'')],
         VInt (Proxy_CheckInterval p)),
      (exported_field ''UseHTTP'' [(''json'', ''use_http,omitempty'')], VBool (Proxy_UseHTTP p))]"

record BackendConfig =
  BlobFile :: string
  Dir :: string
  ReadAhead :: bool
  ReadAheadSec :: int
  Host :: string
  Repo :: string
  Auth :: string
  RegistryToken :: string
  BlobURLScheme :: string
  BlobRedirectedHost :: string
  Mirrors :: "MirrorConfig list option"
  EndPoint :: string
  AccessKeyID :: string
  AccessKeySecret :: string
  BucketName :: string
  ObjectPrefix :: string
  Scheme :: string
  SkipVerify :: bool
  Proxy :: ProxyConfig
  Timeout :: int
  ConnectTimeout :: int
  RetryLimit :: int

definition BackendConfig_Value :: "BackendConfig \<Rightarrow> Value" where
  "BackendConfig_Value b = VStruct
     [(exported_field ''BlobFile'' [(''json'', ''blob_file,omitempty'')], VString (BlobFile b)),
      (exported_field ''Dir'' [(''json'', ''dir,omitempty'')], VString (Dir b)),
      (exported_field ''ReadAhead'' [(''json'', ''readahead'')], VBool (ReadAhead b)),
      (exported_field ''ReadAheadSec'' [(''json'', ''readahead_sec,omitempty'')],
         VInt (ReadAheadSec b)),
      (exported_field ''Host'' [(''json'', ''host,omitempty'')], VString (Host b)),
      (exported_field ''Repo'' [(''json'', ''repo,omitempty'')], VString (Repo b)),
      (exported_field ''Auth'' [(''json'', ''auth,omitempty''), (''secret'', ''true'')],
         VString (Auth b)),
      (exported_field ''RegistryToken''
         [(''json'', ''registry_token,omitempty''), (''secret'', ''true'')],
         VString (RegistryToken b)),
      (exported_field ''BlobURLScheme'' [(''json'', ''blob_url_scheme,omitempty'')],
         VString (BlobURLScheme b)),
      (exported_field ''BlobRedirectedHost'' [(''json'', ''blob_redirected_host,omitempty'')],
         VString (BlobRedirectedHost b)),
      (exported_field ''Mirrors'' [(''json'', ''mirrors,omitempty'')],
         VSlice (map_option (map MirrorConfig_Value) (Mirrors b))),
      (exported_field ''EndPoint'' [(''json'', ''endpoint,omitempty'')], VString (EndPoint b)),
      (exported_field ''AccessKeyID''
         [(''json'', ''access_key_id,omitempty''), (''secret'', ''true'')],
         VString (AccessKeyID b)),
      (exported_field ''AccessKeySecret''
         [(''json'', ''access_key_secret,omitempty''), (''secret'', ''true'')],
         VString (AccessKeySecret b)),
      (exported_field ''BucketName'' [(''json'', ''bucket_name,omitempty'')],
         VString (BucketName b)),
      (exported_field ''ObjectPrefix'' [(''json'', ''object_prefix,omitempty'')],
         VString (ObjectPrefix b)),
      (exported_field ''Scheme'' [(''json'', ''scheme,omitempty'')], VString (Scheme b)),
      (exported_field ''SkipVerify'' [(''json'', ''skip_verify,omitempty'')],
         VBool (SkipVerify b)),
      (exported_field ''Proxy'' [(''json'', ''proxy,omitempty'')], ProxyConfig_Value (Proxy b)),
      (exported_field ''Timeout'' [(''json'', ''timeout,omitempty'')], VInt (Timeout b)),
      (exported_field ''ConnectTimeout'' [(''json'', ''connect_timeout,omitempty'')],
         VInt (ConnectTimeout b)),
      (exported_field ''RetryLimit'' [(''json'', ''retry_limit,omitempty'')],
         VInt (RetryLimit b))]"

record DeviceBackend =
  BackendType :: string
  Config :: BackendConfig

record DeviceCacheConfig =
  WorkDir :: string
  DisableIndexedMap :: bool

record DeviceCache =
  CacheType :: string
  Compressed :: bool
  Cache_Config :: DeviceCacheConfig

record DeviceConfig =
  Backend :: DeviceBackend
  Cache :: DeviceCache

definition DeviceConfig_Value :: "DeviceConfig \<Rightarrow> Value" where
  "DeviceConfig_Value d = VStruct
     [(exported_field ''Backend'' [(''json'', ''backend'')], VStruct
         [(exported_field ''BackendType'' [(''json'', ''type'')],
             VString (BackendType (Backend d))),
          (exported_field ''Config'' [(''json'', ''config'')],
             BackendConfig_Value (Config (Backend d)))]),
      (exported_field ''Cache'' [(''json'', ''cache'')], VStruct
         [(exported_field ''CacheType'' [(''json'', ''type'')], VString (CacheType (Cache d))),
          (exported_field ''Compressed'' [(''json'', ''compressed,omitempty'')],
             VBool (Compressed (Cache d))),
          (exported_field ''Config'' [(''json'', ''config'')], VStruct
             [(exported_field ''WorkDir'' [(''json'', ''work_dir'')],
                 VString (WorkDir (Cache_Config (Cache d)))),
              (exported_field ''DisableIndexedMap'' [(''json'', ''disable_indexed_map'')],
                 VBool (DisableIndexedMap (Cache_Config (Cache d))))])])]"


section \<open>The supplementer: \<^verbatim>\<open>SupplementDaemonConfig\<close>\<close>

type_synonym StorageBackendType = string

definition backendTypeLocalfs :: StorageBackendType where
  "backendTypeLocalfs = ''localfs''"

definition backendTypeOss :: StorageBackendType where
  "backendTypeOss = ''oss''"

definition backendTypeRegistry :: StorageBackendType where
  "backendTypeRegistry = ''registry''"

text \<open>
  Errors as values: an error of a collaborator (opaque but for its message),
  \<^verbatim>\<open>errors.Wrap\<close>/\<^verbatim>\<open>errors.Wrapf\<close> of a non-nil error with the formatted message, and
  \<^verbatim>\<open>errors.Errorf\<close>.
\<close>

datatype error = External string | Wrap error string | Errorf string

text \<open>\<^verbatim>\<open>registry.Image\<close>, as far as the function reads it.\<close>

record Image =
  Image_Host :: string
  Image_Repo :: string

text \<open>
  \<^verbatim>\<open>SupplementInfoInterface\<close>: five getters without arguments, modelled as the values
  they return.
\<close>

record SupplementInfoInterface =
  GetImageID :: string
  GetSnapshotID :: string
  IsVPCRegistry :: bool
  GetLabels :: "(string \<times> string) list"
  GetParams :: "(string \<times> string) list"

text \<open>
  The interface \<^verbatim>\<open>DaemonConfig\<close>, for an arbitrary implementation with state \<open>'c\<close>:
  the methods \<^verbatim>\<open>SupplementDaemonConfig\<close> calls, each taking the receiver's state and
  (but for \<^verbatim>\<open>StorageBackend\<close>, whose second result the caller drops) returning the new
  one. \<^verbatim>\<open>UpdateMirrors\<close> returns its error beside the state it leaves. \<open>'kc\<close> is the key
  chain (\<^verbatim>\<open>auth.PassKeyChain\<close>); \<open>None\<close> is the nil pointer.
\<close>

record ('c, 'kc) DaemonConfig =
  Supplement :: "string \<Rightarrow> string \<Rightarrow> string \<Rightarrow> (string \<times> string) list \<Rightarrow> 'c \<Rightarrow> 'c"
  FillAuth :: "'kc option \<Rightarrow> 'c \<Rightarrow> 'c"
  StorageBackend :: "'c \<Rightarrow> StorageBackendType"
  UpdateMirrors :: "string \<Rightarrow> string \<Rightarrow> 'c \<Rightarrow> error option \<times> 'c"

text \<open>
  The functions of other packages the body calls (\<^verbatim>\<open>registry.ParseImage\<close>,
  \<^verbatim>\<open>registry.ConvertToVPCHost\<close>, \<^verbatim>\<open>config.GetMirrorsConfigDir\<close>,
  \<^verbatim>\<open>auth.GetRegistryKeyChain\<close>) are parameters of the model.
\<close>

record 'kc collaborators =
  ParseImage :: "string \<Rightarrow> error + Image"
  ConvertToVPCHost :: "string \<Rightarrow> string"
  GetMirrorsConfigDir :: string
  GetRegistryKeyChain :: "string \<Rightarrow> string \<Rightarrow> (string \<times> string) list \<Rightarrow> 'kc option"

text \<open>
  The function returns the error (\<open>None\<close> for \<^verbatim>\<open>nil\<close>) and the state of the receiver
  \<open>c\<close> afterwards. \<^verbatim>\<open>configRWMutex\<close> is taken on entry and released by \<^verbatim>\<open>defer\<close>; a
  single sequential call does not observe it and the model leaves it out.
\<close>

definition SupplementDaemonConfig ::
  "'kc collaborators \<Rightarrow> ('c, 'kc) DaemonConfig \<Rightarrow> 'c \<Rightarrow> SupplementInfoInterface
     \<Rightarrow> error option \<times> 'c" where
  "SupplementDaemonConfig env methods c info =
     (case ParseImage env (GetImageID info) of
        Inl err \<Rightarrow> (Some (Wrap err (''parse image '' @ GetImageID info)), c)
      | Inr img \<Rightarrow>
          (let backendType = StorageBackend methods c in
           if backendType = backendTypeRegistry then
             (let registryHost =
                    (if IsVPCRegistry info then ConvertToVPCHost env (Image_Host img)
                     else if Image_Host img = ''docker.io'' then ''index.docker.io''
                     else Image_Host img)
              in case UpdateMirrors methods (GetMirrorsConfigDir env) registryHost c of
                   (Some err, c1) \<Rightarrow> (Some (Wrap err ''update mirrors config''), c1)
                 | (None, c1) \<Rightarrow>
                     (let keyChain =
                            GetRegistryKeyChain env registryHost (GetImageID info) (GetLabels info);
                          c2 = Supplement methods registryHost (Image_Repo img)
                                 (GetSnapshotID info) (GetParams info) c1;
                          c3 = FillAuth methods keyChain c2
                      in (None, c3)))
           else if backendType = backendTypeLocalfs then (None, c)
           else if backendType = backendTypeOss then (None, c)
           else (Some (Errorf (''unknown backend type '' @ backendType)), c)))"

text \<open>
  To speak about which methods a call invokes, any implementation can be wrapped
  so that it appends each mutating call to a log kept beside its state.
\<close>

datatype 'kc call =
    Call_UpdateMirrors string string
  | Call_Supplement string string string "(string \<times> string) list"
  | Call_FillAuth "'kc option"

definition traced :: "('c, 'kc) DaemonConfig \<Rightarrow> ('c \<times> 'kc call list, 'kc) DaemonConfig" where
  "traced methods =
     \<lparr>Supplement = (\<lambda>host repo snapshotID params (c, calls).
        (Supplement methods host repo snapshotID params c,
         calls @ [Call_Supplement host repo snapshotID params])),
      FillAuth = (\<lambda>kc (c, calls). (FillAuth methods kc c, calls @ [Call_FillAuth kc])),
      StorageBackend = (\<lambda>(c, calls). StorageBackend methods c),
      UpdateMirrors = (\<lambda>mirrorsConfigDir registryHost (c, calls).
        (case UpdateMirrors methods mirrorsConfigDir registryHost c of
           (err, c1) \<Rightarrow> (err, (c1, calls @ [Call_UpdateMirrors mirrorsConfigDir registryHost]))))\<rparr>"

text \<open>
  The effective registry host in the words of the specification: the VPC rewrite
  of the parsed host when the VPC flag is set, otherwise the canonical API host
  for the public default registry, otherwise the parsed host.
\<close>

definition effective_host :: "'kc collaborators \<Rightarrow> SupplementInfoInterface \<Rightarrow> Image \<Rightarrow> string" where
  "effective_host env info img =
     (if IsVPCRegistry info then ConvertToVPCHost env (Image_Host img)
      else if Image_Host img = ''docker.io'' then ''index.docker.io''
      else Image_Host img)"

text \<open>
  Collaborators for evaluating the model on concrete inputs: a parser that fails
  on the empty reference and otherwise takes the host up to the first slash and
  the repository up to the tag, a VPC rewrite that prefixes the host, a fixed
  mirrors directory, and a key chain read from the labels.
\<close>

definition example_collaborators :: "string collaborators" where
  "example_collaborators =
     \<lparr>ParseImage = (\<lambda>ref.
        if ref = [] then Inl (External ''invalid reference format'')
        else Inr \<lparr>Image_Host = takeWhile (\<lambda>ch. ch \<noteq> CHR ''/'') ref,
                  Image_Repo = takeWhile (\<lambda>ch. ch \<noteq> CHR '':'')
                                 (drop 1 (dropWhile (\<lambda>ch. ch \<noteq> CHR ''/'') ref))\<rparr>),
      ConvertToVPCHost = (\<lambda>host. ''vpc.'' @ host),
      GetMirrorsConfigDir = ''/etc/nydus/certs.d'',
      GetRegistryKeyChain = (\<lambda>host ref labels. map_of labels ''auth'')\<rparr>"


definition example_info :: "string \<Rightarrow> bool \<Rightarrow> SupplementInfoInterface" where
  "example_info ref vpc =
     \<lparr>GetImageID = ref, GetSnapshotID = ''7'', IsVPCRegistry = vpc,
      GetLabels = [], GetParams = []\<rparr>"


section \<open>The configuration variants\<close>

text \<open>
  Modelled from the spec: the implementations of the interface \<^verbatim>\<open>DaemonConfig\<close> (the
  two configuration variants, one per driver) are not among the source files; only
  the interface and its caller are. The variant owns a \<open>DeviceConfig\<close>. Following
  section 4.2 of the specification: \<^verbatim>\<open>Supplement\<close> stores host and repository in
  the registry fields and validates nothing; \<^verbatim>\<open>FillAuth\<close> copies the authentication
  material of the key chain into the backend's auth field only when the key chain
  is not empty (\<open>None\<close>); \<^verbatim>\<open>StorageBackend\<close> reads the backend type and changes
  nothing; \<^verbatim>\<open>UpdateMirrors\<close> replaces the mirror list by the mirror definitions read
  for the registry host from the mirrors directory and leaves the list untouched
  when reading fails. Reading the directory is the parameter \<open>readMirrors\<close>.
\<close>

definition variant_Supplement ::
  "string \<Rightarrow> string \<Rightarrow> string \<Rightarrow> (string \<times> string) list \<Rightarrow> DeviceConfig \<Rightarrow> DeviceConfig" where
  "variant_Supplement host repo snapshotID params d =
     d\<lparr>Backend := (Backend d)\<lparr>Config := (Config (Backend d))\<lparr>Host := host, Repo := repo\<rparr>\<rparr>\<rparr>"

definition variant_FillAuth :: "string option \<Rightarrow> DeviceConfig \<Rightarrow> DeviceConfig" where
  "variant_FillAuth kc d =
     (case kc of
        None \<Rightarrow> d
      | Some material \<Rightarrow>
          d\<lparr>Backend := (Backend d)\<lparr>Config := (Config (Backend d))\<lparr>Auth := material\<rparr>\<rparr>\<rparr>)"

definition variant_StorageBackend :: "DeviceConfig \<Rightarrow> StorageBackendType" where
  "variant_StorageBackend d = BackendType (Backend d)"

definition variant_UpdateMirrors ::
  "(string \<Rightarrow> string \<Rightarrow> error + MirrorConfig list option) \<Rightarrow> string \<Rightarrow> string \<Rightarrow> DeviceConfig
     \<Rightarrow> error option \<times> DeviceConfig" where
  "variant_UpdateMirrors readMirrors mirrorsDir registryHost d =
     (case readMirrors mirrorsDir registryHost of
        Inl err \<Rightarrow> (Some err, d)
      | Inr mirrors \<Rightarrow>
          (None, d\<lparr>Backend := (Backend d)\<lparr>Config := (Config (Backend d))\<lparr>Mirrors := mirrors\<rparr>\<rparr>\<rparr>))"

definition ConfigVariant ::
  "(string \<Rightarrow> string \<Rightarrow> error + MirrorConfig list option) \<Rightarrow> (DeviceConfig, string) DaemonConfig" where
  "ConfigVariant readMirrors =
     \<lparr>Supplement = variant_Supplement,
      FillAuth = variant_FillAuth,
      StorageBackend = variant_StorageBackend,
      UpdateMirrors = variant_UpdateMirrors readMirrors\<rparr>"

text \<open>
  Concrete inputs: a backend configuration with every field zero, a device of a
  given backend type around a given backend configuration, a mirrors directory
  that holds one mirror for every host, and one that cannot be read.
\<close>

definition zero_BackendConfig :: BackendConfig where
  "zero_BackendConfig =
     \<lparr>BlobFile = [], Dir = [], ReadAhead = False, ReadAheadSec = 0, Host = [], Repo = [],
      Auth = [], RegistryToken = [], BlobURLScheme = [], BlobRedirectedHost = [],
      Mirrors = None, EndPoint = [], AccessKeyID = [], AccessKeySecret = [],
      BucketName = [], ObjectPrefix = [], Scheme = [], SkipVerify = False,
      Proxy = \<lparr>Proxy_URL = [], Proxy_Fallback = False, Proxy_PingURL = [],
                Proxy_CheckInterval = 0, Proxy_UseHTTP = False\<rparr>,
      Timeout = 0, ConnectTimeout = 0, RetryLimit = 0\<rparr>"

definition example_device :: "string \<Rightarrow> BackendConfig \<Rightarrow> DeviceConfig" where
  "example_device kind b =
     \<lparr>Backend = \<lparr>BackendType = kind, Config = b\<rparr>,
      Cache = \<lparr>CacheType = ''blobcache'', Compressed = False,
               Cache_Config = \<lparr>WorkDir = ''/var/cache'', DisableIndexedMap = False\<rparr>\<rparr>\<rparr>"

definition example_mirror :: MirrorConfig where
  "example_mirror =
     \<lparr>Mirror_Host = ''mirror.local'', Mirror_Headers = Some [(''X-Token'', ''t0'')],
      Mirror_HealthCheckInterval = 5, Mirror_FailureLimit = 3, Mirror_PingURL = []\<rparr>"

definition example_mirrors :: "string \<Rightarrow> string \<Rightarrow> error + MirrorConfig list option" where
  "example_mirrors mirrorsDir registryHost = Inr (Some [example_mirror])"

definition unreadable_mirrors :: "string \<Rightarrow> string \<Rightarrow> error + MirrorConfig list option" where
  "unreadable_mirrors mirrorsDir registryHost = Inl (External ''read mirrors directory'')"


section \<open>Properties of the supplementer\<close>

lemma traced_StorageBackend [simp]:
  "StorageBackend (traced methods) (c, calls) = StorageBackend methods c"
  by (simp add: traced_def)

lemma traced_UpdateMirrors [simp]:
  "UpdateMirrors (traced methods) d h (c, calls) =
     (fst (UpdateMirrors methods d h c),
      (snd (UpdateMirrors methods d h c), calls @ [Call_UpdateMirrors d h]))"
  by (simp add: traced_def split: prod.splits)

lemma traced_Supplement [simp]:
  "Supplement (traced methods) h r s p (c, calls) =
     (Supplement methods h r s p c, calls @ [Call_Supplement h r s p])"
  by (simp add: traced_def)

lemma traced_FillAuth [simp]:
  "FillAuth (traced methods) kc (c, calls) = (FillAuth methods kc c, calls @ [Call_FillAuth kc])"
  by (simp add: traced_def)

text \<open>The log is an observer only: dropping it gives the run of the bare methods.\<close>

lemma traced_erasure:
  "map_prod id fst (SupplementDaemonConfig env (traced methods) (c, calls) info) =
     SupplementDaemonConfig env methods c info"
  by (simp add: SupplementDaemonConfig_def Let_def split: sum.splits prod.splits option.splits)

lemma backend_names_distinct:
  "backendTypeRegistry \<noteq> backendTypeLocalfs"
  "backendTypeRegistry \<noteq> backendTypeOss"
  "backendTypeLocalfs \<noteq> backendTypeOss"
  by (simp_all add: backendTypeRegistry_def backendTypeLocalfs_def backendTypeOss_def)

lemma example_parse_busybox:
  "ParseImage example_collaborators ''docker.io/library/busybox:latest'' =
     Inr \<lparr>Image_Host = ''docker.io'', Image_Repo = ''library/busybox''\<rparr>"
  by (simp add: example_collaborators_def)

lemma example_parse_empty:
  "ParseImage example_collaborators [] = Inl (External ''invalid reference format'')"
  by (simp add: example_collaborators_def)

lemma example_kind:
  "StorageBackend (ConfigVariant rm) (example_device kind b) = kind"
  by (simp add: ConfigVariant_def variant_StorageBackend_def example_device_def)

lemma variant_kind:
  "variant_StorageBackend (variant_Supplement h r s p d) = variant_StorageBackend d"
  "variant_StorageBackend (variant_FillAuth kc d) = variant_StorageBackend d"
  "variant_StorageBackend (snd (variant_UpdateMirrors rm dir h d)) = variant_StorageBackend d"
  by (simp_all add: variant_StorageBackend_def variant_Supplement_def variant_FillAuth_def
      variant_UpdateMirrors_def split: option.splits sum.splits)

lemma variant_UpdateMirrors_fail:
  "rm dir h = Inl e \<Longrightarrow> variant_UpdateMirrors rm dir h d = (Some e, d)"
  by (simp add: variant_UpdateMirrors_def)

lemma variant_again:
  "rm dir h = Inr ms \<Longrightarrow> variant_UpdateMirrors rm dir h d = (None, d1) \<Longrightarrow>
   variant_UpdateMirrors rm dir h (variant_FillAuth kc (variant_Supplement h r s p d1)) =
     (None, variant_FillAuth kc (variant_Supplement h r s p d1)) \<and>
   variant_FillAuth kc (variant_Supplement h r s p
       (variant_FillAuth kc (variant_Supplement h r s p d1)))
     = variant_FillAuth kc (variant_Supplement h r s p d1)"
  by (auto simp: variant_UpdateMirrors_def variant_FillAuth_def variant_Supplement_def
      split: option.splits)

text \<open>
  C2. On a registry backend whose image reference parses, the effective registry
  host is the VPC rewrite of the parsed host when the VPC flag is set, otherwise
  \<open>index.docker.io\<close> when the parsed host is \<open>docker.io\<close>, otherwise the parsed host;
  the call invokes \<^verbatim>\<open>UpdateMirrors\<close> with that host first and, when that succeeds,
  \<^verbatim>\<open>Supplement\<close> with that host and \<^verbatim>\<open>FillAuth\<close> with the key chain looked up for
  that host, and nothing else.
\<close>

theorem supplement_registry_effective_host:
  assumes "ParseImage env (GetImageID info) = Inr img"
    and "StorageBackend methods c = backendTypeRegistry"
  shows "effective_host env info img =
           (if IsVPCRegistry info then ConvertToVPCHost env (Image_Host img)
            else if Image_Host img = ''docker.io'' then ''index.docker.io''
            else Image_Host img) \<and>
         SupplementDaemonConfig env (traced methods) (c, []) info =
           (case UpdateMirrors methods (GetMirrorsConfigDir env) (effective_host env info img) c of
              (Some err, c1) \<Rightarrow>
                (Some (Wrap err ''update mirrors config''),
                 (c1, [Call_UpdateMirrors (GetMirrorsConfigDir env) (effective_host env info img)]))
            | (None, c1) \<Rightarrow>
                (None,
                 (FillAuth methods
                    (GetRegistryKeyChain env (effective_host env info img)
                       (GetImageID info) (GetLabels info))
                    (Supplement methods (effective_host env info img) (Image_Repo img)
                       (GetSnapshotID info) (GetParams info) c1),
                  [Call_UpdateMirrors (GetMirrorsConfigDir env) (effective_host env info img),
                   Call_Supplement (effective_host env info img) (Image_Repo img)
                     (GetSnapshotID info) (GetParams info),
                   Call_FillAuth (GetRegistryKeyChain env (effective_host env info img)
                     (GetImageID info) (GetLabels info))])))"
proof
  show "effective_host env info img =
          (if IsVPCRegistry info then ConvertToVPCHost env (Image_Host img)
           else if Image_Host img = ''docker.io'' then ''index.docker.io''
           else Image_Host img)"
    by (simp add: effective_host_def)
next
  obtain e c1 where u:
    "UpdateMirrors methods (GetMirrorsConfigDir env) (effective_host env info img) c = (e, c1)"
    by (cases "UpdateMirrors methods (GetMirrorsConfigDir env) (effective_host env info img) c")
  show "SupplementDaemonConfig env (traced methods) (c, []) info =
          (case UpdateMirrors methods (GetMirrorsConfigDir env) (effective_host env info img) c of
             (Some err, c1) \<Rightarrow>
               (Some (Wrap err ''update mirrors config''),
                (c1, [Call_UpdateMirrors (GetMirrorsConfigDir env) (effective_host env info img)]))
           | (None, c1) \<Rightarrow>
               (None,
                (FillAuth methods
                   (GetRegistryKeyChain env (effective_host env info img)
                      (GetImageID info) (GetLabels info))
                   (Supplement methods (effective_host env info img) (Image_Repo img)
                      (GetSnapshotID info) (GetParams info) c1),
                 [Call_UpdateMirrors (GetMirrorsConfigDir env) (effective_host env info img),
                  Call_Supplement (effective_host env info img) (Image_Repo img)
                    (GetSnapshotID info) (GetParams info),
                  Call_FillAuth (GetRegistryKeyChain env (effective_host env info img)
                    (GetImageID info) (GetLabels info))])))"
    using assms u
    by (cases e) (simp_all add: SupplementDaemonConfig_def effective_host_def [symmetric] Let_def)
qed

text \<open>
  The scenario of the specification: image \<open>docker.io/library/busybox:latest\<close>, VPC
  flag false, registry backend. \<^verbatim>\<open>UpdateMirrors\<close> is invoked with \<open>index.docker.io\<close>.
\<close>

theorem supplement_registry_effective_host_witness:
  "ParseImage example_collaborators
     (GetImageID (example_info ''docker.io/library/busybox:latest'' False)) =
     Inr \<lparr>Image_Host = ''docker.io'', Image_Repo = ''library/busybox''\<rparr> \<and>
   StorageBackend (ConfigVariant example_mirrors) (example_device ''registry'' zero_BackendConfig) =
     backendTypeRegistry \<and>
   effective_host example_collaborators (example_info ''docker.io/library/busybox:latest'' False)
     \<lparr>Image_Host = ''docker.io'', Image_Repo = ''library/busybox''\<rparr> = ''index.docker.io'' \<and>
   snd (snd (SupplementDaemonConfig example_collaborators (traced (ConfigVariant example_mirrors))
     (example_device ''registry'' zero_BackendConfig, [])
     (example_info ''docker.io/library/busybox:latest'' False))) =
     [Call_UpdateMirrors ''/etc/nydus/certs.d'' ''index.docker.io'',
      Call_Supplement ''index.docker.io'' ''library/busybox'' ''7'' [],
      Call_FillAuth None]"
proof -
  let ?info = "example_info ''docker.io/library/busybox:latest'' False"
  let ?img = "\<lparr>Image_Host = ''docker.io'', Image_Repo = ''library/busybox''\<rparr>"
  have p: "ParseImage example_collaborators (GetImageID ?info) = Inr ?img"
    by (simp add: example_info_def example_parse_busybox)
  have k: "StorageBackend (ConfigVariant example_mirrors)
      (example_device ''registry'' zero_BackendConfig) = backendTypeRegistry"
    by (simp add: example_kind backendTypeRegistry_def)
  have h: "effective_host example_collaborators ?info ?img = ''index.docker.io''"
    by (simp add: effective_host_def example_info_def)
  have u: "UpdateMirrors (ConfigVariant example_mirrors) ''/etc/nydus/certs.d'' ''index.docker.io''
      (example_device ''registry'' zero_BackendConfig) =
      (None, snd (variant_UpdateMirrors example_mirrors ''/etc/nydus/certs.d'' ''index.docker.io''
        (example_device ''registry'' zero_BackendConfig)))"
    by (simp add: ConfigVariant_def variant_UpdateMirrors_def example_mirrors_def)
  have d: "GetMirrorsConfigDir example_collaborators = ''/etc/nydus/certs.d''"
    and g: "GetRegistryKeyChain example_collaborators ''index.docker.io''
              (GetImageID ?info) (GetLabels ?info) = None"
    by (simp_all add: example_collaborators_def example_info_def)
  from supplement_registry_effective_host [OF p k]
  have "snd (snd (SupplementDaemonConfig example_collaborators
      (traced (ConfigVariant example_mirrors))
      (example_device ''registry'' zero_BackendConfig, []) ?info)) =
      [Call_UpdateMirrors ''/etc/nydus/certs.d'' ''index.docker.io'',
       Call_Supplement ''index.docker.io'' ''library/busybox'' ''7'' [],
       Call_FillAuth None]"
    unfolding h d u g by (simp add: example_info_def)
  with p k h show ?thesis by simp
qed


text \<open>
  C3, as amended. Provided the image reference parses: on a localfs or oss backend
  the call returns success, invokes none of \<^verbatim>\<open>UpdateMirrors\<close>, \<^verbatim>\<open>Supplement\<close>,
  \<^verbatim>\<open>FillAuth\<close> and leaves the variant as it was; on a backend type that is none of
  registry, localfs, oss it returns the error naming that type, with no call and
  the variant unchanged. Whether or not the reference parses, a call on a backend
  other than registry invokes no method and leaves the variant unchanged.
\<close>

theorem supplement_other_backends:
  assumes "ParseImage env (GetImageID info) = Inr img"
  shows "(StorageBackend methods c = backendTypeLocalfs \<or> StorageBackend methods c = backendTypeOss
            \<longrightarrow> SupplementDaemonConfig env (traced methods) (c, []) info = (None, (c, []))) \<and>
         (StorageBackend methods c \<noteq> backendTypeRegistry \<and>
          StorageBackend methods c \<noteq> backendTypeLocalfs \<and>
          StorageBackend methods c \<noteq> backendTypeOss
            \<longrightarrow> SupplementDaemonConfig env (traced methods) (c, []) info =
                  (Some (Errorf (''unknown backend type '' @ StorageBackend methods c)), (c, []))) \<and>
         (\<forall>info'. StorageBackend methods c \<noteq> backendTypeRegistry
            \<longrightarrow> snd (SupplementDaemonConfig env (traced methods) (c, []) info') = (c, []))"
proof (intro conjI allI impI)
  assume "StorageBackend methods c = backendTypeLocalfs \<or> StorageBackend methods c = backendTypeOss"
  with assms backend_names_distinct
  show "SupplementDaemonConfig env (traced methods) (c, []) info = (None, (c, []))"
    by (auto simp add: SupplementDaemonConfig_def Let_def)
next
  assume "StorageBackend methods c \<noteq> backendTypeRegistry \<and>
          StorageBackend methods c \<noteq> backendTypeLocalfs \<and>
          StorageBackend methods c \<noteq> backendTypeOss"
  with assms
  show "SupplementDaemonConfig env (traced methods) (c, []) info =
          (Some (Errorf (''unknown backend type '' @ StorageBackend methods c)), (c, []))"
    by (simp add: SupplementDaemonConfig_def Let_def)
next
  fix info'
  assume "StorageBackend methods c \<noteq> backendTypeRegistry"
  then show "snd (SupplementDaemonConfig env (traced methods) (c, []) info') = (c, [])"
    by (simp add: SupplementDaemonConfig_def Let_def split: sum.splits)
qed

theorem supplement_other_backends_witness:
  "ParseImage example_collaborators
     (GetImageID (example_info ''docker.io/library/busybox:latest'' False)) =
     Inr \<lparr>Image_Host = ''docker.io'', Image_Repo = ''library/busybox''\<rparr> \<and>
   SupplementDaemonConfig example_collaborators (traced (ConfigVariant example_mirrors))
     (example_device ''localfs'' zero_BackendConfig, [])
     (example_info ''docker.io/library/busybox:latest'' False) =
     (None, (example_device ''localfs'' zero_BackendConfig, [])) \<and>
   SupplementDaemonConfig example_collaborators (traced (ConfigVariant example_mirrors))
     (example_device ''s3'' zero_BackendConfig, [])
     (example_info ''docker.io/library/busybox:latest'' False) =
     (Some (Errorf ''unknown backend type s3''), (example_device ''s3'' zero_BackendConfig, [])) \<and>
   snd (SupplementDaemonConfig example_collaborators (traced (ConfigVariant example_mirrors))
     (example_device ''oss'' zero_BackendConfig, []) (example_info [] False)) =
     (example_device ''oss'' zero_BackendConfig, [])"
proof -
  let ?info = "example_info ''docker.io/library/busybox:latest'' False"
  have p: "ParseImage example_collaborators (GetImageID ?info) =
      Inr \<lparr>Image_Host = ''docker.io'', Image_Repo = ''library/busybox''\<rparr>"
    by (simp add: example_info_def example_parse_busybox)
  note t = supplement_other_backends [OF p, where methods = "ConfigVariant example_mirrors"]
  have a: "SupplementDaemonConfig example_collaborators (traced (ConfigVariant example_mirrors))
      (example_device ''localfs'' zero_BackendConfig, []) ?info =
      (None, (example_device ''localfs'' zero_BackendConfig, []))"
    using t [of "example_device ''localfs'' zero_BackendConfig"]
    by (simp add: example_kind backendTypeLocalfs_def)
  have b: "SupplementDaemonConfig example_collaborators (traced (ConfigVariant example_mirrors))
      (example_device ''s3'' zero_BackendConfig, []) ?info =
      (Some (Errorf ''unknown backend type s3''), (example_device ''s3'' zero_BackendConfig, []))"
    using t [of "example_device ''s3'' zero_BackendConfig"]
    by (simp add: example_kind backendTypeLocalfs_def backendTypeOss_def backendTypeRegistry_def)
  have c: "snd (SupplementDaemonConfig example_collaborators (traced (ConfigVariant example_mirrors))
      (example_device ''oss'' zero_BackendConfig, []) (example_info [] False)) =
      (example_device ''oss'' zero_BackendConfig, [])"
    using t [of "example_device ''oss'' zero_BackendConfig"]
    by (simp add: example_kind backendTypeRegistry_def)
  from p a b c show ?thesis by simp
qed

text \<open>
  C3 as stated fails: on a localfs backend with an image reference that does not
  parse, the call returns the wrapped parse error, not success.
\<close>

theorem supplement_localfs_counterexample:
  "StorageBackend (ConfigVariant example_mirrors) (example_device ''localfs'' zero_BackendConfig) =
     backendTypeLocalfs \<and>
   SupplementDaemonConfig example_collaborators (traced (ConfigVariant example_mirrors))
     (example_device ''localfs'' zero_BackendConfig, []) (example_info [] False) =
     (Some (Wrap (External ''invalid reference format'') ''parse image ''),
      (example_device ''localfs'' zero_BackendConfig, []))"
  by (simp add: example_kind backendTypeLocalfs_def SupplementDaemonConfig_def
      example_info_def example_parse_empty)

text \<open>
  C4. When parsing the image identifier fails, the call returns the parse error
  wrapped with the image identifier, invokes none of \<^verbatim>\<open>UpdateMirrors\<close>, \<^verbatim>\<open>Supplement\<close>,
  \<^verbatim>\<open>FillAuth\<close>, and leaves the variant as it was.
\<close>

theorem supplement_parse_failure:
  assumes "ParseImage env (GetImageID info) = Inl err"
  shows "SupplementDaemonConfig env (traced methods) (c, []) info =
           (Some (Wrap err (''parse image '' @ GetImageID info)), (c, []))"
  using assms by (simp add: SupplementDaemonConfig_def)

theorem supplement_parse_failure_witness:
  "ParseImage example_collaborators (GetImageID (example_info [] True)) =
     Inl (External ''invalid reference format'') \<and>
   SupplementDaemonConfig example_collaborators (traced (ConfigVariant example_mirrors))
     (example_device ''registry'' zero_BackendConfig, []) (example_info [] True) =
     (Some (Wrap (External ''invalid reference format'') ''parse image ''),
      (example_device ''registry'' zero_BackendConfig, []))"
proof -
  have p: "ParseImage example_collaborators (GetImageID (example_info [] True)) =
      Inl (External ''invalid reference format'')"
    by (simp add: example_info_def example_parse_empty)
  from supplement_parse_failure [OF p, of "ConfigVariant example_mirrors"
      "example_device ''registry'' zero_BackendConfig"] p
  show ?thesis by (simp add: example_info_def)
qed

text \<open>
  C5. On a registry backend, when \<^verbatim>\<open>UpdateMirrors\<close> returns an error the call
  returns that error wrapped with \<open>update mirrors config\<close>; \<^verbatim>\<open>UpdateMirrors\<close> is the
  only method invoked, and the variant is in the state \<^verbatim>\<open>UpdateMirrors\<close> left it in.
\<close>

theorem supplement_mirror_failure:
  assumes "ParseImage env (GetImageID info) = Inr img"
    and "StorageBackend methods c = backendTypeRegistry"
    and "UpdateMirrors methods (GetMirrorsConfigDir env) (effective_host env info img) c =
           (Some err, c1)"
  shows "SupplementDaemonConfig env (traced methods) (c, []) info =
           (Some (Wrap err ''update mirrors config''),
            (c1, [Call_UpdateMirrors (GetMirrorsConfigDir env) (effective_host env info img)]))"
  using assms by (simp add: SupplementDaemonConfig_def effective_host_def Let_def)

theorem supplement_mirror_failure_witness:
  "ParseImage example_collaborators
     (GetImageID (example_info ''docker.io/library/busybox:latest'' False)) =
     Inr \<lparr>Image_Host = ''docker.io'', Image_Repo = ''library/busybox''\<rparr> \<and>
   StorageBackend (ConfigVariant unreadable_mirrors)
     (example_device ''registry'' zero_BackendConfig) = backendTypeRegistry \<and>
   UpdateMirrors (ConfigVariant unreadable_mirrors) ''/etc/nydus/certs.d'' ''index.docker.io''
     (example_device ''registry'' zero_BackendConfig) =
     (Some (External ''read mirrors directory''), example_device ''registry'' zero_BackendConfig) \<and>
   SupplementDaemonConfig example_collaborators (traced (ConfigVariant unreadable_mirrors))
     (example_device ''registry'' zero_BackendConfig, [])
     (example_info ''docker.io/library/busybox:latest'' False) =
     (Some (Wrap (External ''read mirrors directory'') ''update mirrors config''),
      (example_device ''registry'' zero_BackendConfig,
       [Call_UpdateMirrors ''/etc/nydus/certs.d'' ''index.docker.io'']))"
proof -
  let ?info = "example_info ''docker.io/library/busybox:latest'' False"
  let ?img = "\<lparr>Image_Host = ''docker.io'', Image_Repo = ''library/busybox''\<rparr>"
  let ?d = "example_device ''registry'' zero_BackendConfig"
  have p: "ParseImage example_collaborators (GetImageID ?info) = Inr ?img"
    by (simp add: example_info_def example_parse_busybox)
  have k: "StorageBackend (ConfigVariant unreadable_mirrors) ?d = backendTypeRegistry"
    by (simp add: example_kind backendTypeRegistry_def)
  have h: "effective_host example_collaborators ?info ?img = ''index.docker.io''"
    by (simp add: effective_host_def example_info_def)
  have g: "GetMirrorsConfigDir example_collaborators = ''/etc/nydus/certs.d''"
    by (simp add: example_collaborators_def)
  have u: "UpdateMirrors (ConfigVariant unreadable_mirrors) ''/etc/nydus/certs.d''
      ''index.docker.io'' ?d = (Some (External ''read mirrors directory''), ?d)"
    by (simp add: ConfigVariant_def variant_UpdateMirrors_def unreadable_mirrors_def)
  have u': "UpdateMirrors (ConfigVariant unreadable_mirrors)
      (GetMirrorsConfigDir example_collaborators)
      (effective_host example_collaborators ?info ?img) ?d =
      (Some (External ''read mirrors directory''), ?d)"
    unfolding h g by (rule u)
  from supplement_mirror_failure [OF p k u'] p k u show ?thesis
    unfolding h g by simp
qed

text \<open>
  C8. With the configuration variants as the specification describes them, a
  second call of \<^verbatim>\<open>SupplementDaemonConfig\<close> with the same inputs (the same
  collaborators and the same mirrors directory) on the variant the first call
  left returns the same error and leaves the same variant.
\<close>

theorem supplement_idempotent:
  "SupplementDaemonConfig env (ConfigVariant readMirrors)
     (snd (SupplementDaemonConfig env (ConfigVariant readMirrors) d info)) info =
   SupplementDaemonConfig env (ConfigVariant readMirrors) d info"
proof (cases "ParseImage env (GetImageID info)")
  case (Inl err)
  then show ?thesis by (simp add: SupplementDaemonConfig_def)
next
  case (Inr img)
  show ?thesis
  proof (cases "variant_StorageBackend d = backendTypeRegistry")
    case False
    with Inr show ?thesis
      by (simp add: SupplementDaemonConfig_def ConfigVariant_def Let_def)
  next
    case True
    let ?h = "effective_host env info img"
    show ?thesis
    proof (cases "readMirrors (GetMirrorsConfigDir env) ?h")
      case (Inl e)
      with Inr True show ?thesis
        by (simp add: SupplementDaemonConfig_def ConfigVariant_def Let_def
            effective_host_def variant_UpdateMirrors_fail)
    next
      case ms: (Inr ms)
      obtain d1 where d1:
        "variant_UpdateMirrors readMirrors (GetMirrorsConfigDir env) ?h d = (None, d1)"
        using ms by (simp add: variant_UpdateMirrors_def)
      have k: "variant_StorageBackend d1 = backendTypeRegistry"
        using variant_kind(3) [of readMirrors "GetMirrorsConfigDir env" ?h d] d1 True by simp
      from variant_again [OF ms d1] Inr True d1 k show ?thesis
        by (simp add: SupplementDaemonConfig_def ConfigVariant_def Let_def effective_host_def
            variant_kind)
    qed
  qed
qed

end
